theory Spec2Isabelle
  imports Complex_Main "HOL-Library.AList"
begin

section \<open>Python values\<close>

text \<open>
  A Python \<open>dict\<close> is an association list in insertion order: \<open>d.get(k)\<close> is
  \<open>map_of d k\<close>, \<open>d[k] = v\<close> is \<open>AList.update k v d\<close>, \<open>k in d\<close> is
  \<open>map_of d k \<noteq> None\<close> and \<open>not d\<close> is \<open>d = []\<close>.  Python's \<open>None\<close> for an
  optional argument or result is \<open>None\<close> of the option type.  Python floats are
  idealised as real numbers throughout.
\<close>

type_synonym ('k, 'v) dict = "('k \<times> 'v) list"

text \<open>\<open>int(a)\<close> on a float: truncation towards zero.\<close>

definition py_int :: "real \<Rightarrow> int" where
  "py_int a = (if 0 \<le> a then \<lfloor>a\<rfloor> else \<lceil>a\<rceil>)"

text \<open>\<open>round(a, 1)\<close>: one decimal place, ties to the even neighbour.\<close>

definition round1 :: "real \<Rightarrow> real" where
  "round1 a =
     (let s = a * 10; f = \<lfloor>s\<rfloor>; d = s - of_int f
      in of_int (if d < 1 / 2 then f
                 else if 1 / 2 < d then f + 1
                 else if even f then f else f + 1) / 10)"

section \<open>Keypoints (pose-estimation-code.py, \<open>get_keypoints\<close>)\<close>

text \<open>
  One landmark is the dict \<open>{'x': int, 'y': int, 'z': float, 'v': float}\<close>; it always has
  its four keys, so it is truthy whenever it is present.  A keypoint frame maps the
  landmark index to its landmark.
\<close>

record keypoint =
  x :: int
  y :: int
  z :: real
  v :: real

type_synonym keypoints = "(nat, keypoint) dict"

section \<open>MeasurementCalculator (measurements-calculator-code.py)\<close>

text \<open>The landmark indices of \<open>self.keypoints\<close>.\<close>

definition left_shoulder_idx :: nat where "left_shoulder_idx = 11"
definition right_shoulder_idx :: nat where "right_shoulder_idx = 12"
definition left_elbow_idx :: nat where "left_elbow_idx = 13"
definition right_elbow_idx :: nat where "right_elbow_idx = 14"
definition left_wrist_idx :: nat where "left_wrist_idx = 15"
definition right_wrist_idx :: nat where "right_wrist_idx = 16"
definition left_hip_idx :: nat where "left_hip_idx = 23"
definition right_hip_idx :: nat where "right_hip_idx = 24"
definition left_knee_idx :: nat where "left_knee_idx = 25"
definition right_knee_idx :: nat where "right_knee_idx = 26"
definition left_ankle_idx :: nat where "left_ankle_idx = 27"
definition right_ankle_idx :: nat where "right_ankle_idx = 28"
definition neck_idx :: nat where "neck_idx = 0"

text \<open>The mutable state of the object: the calibration factor.\<close>

record calculator =
  pixel_to_cm_ratio :: real

text \<open>\<open>__init__\<close>: the initial estimate.\<close>

definition init_calculator :: calculator where
  "init_calculator = \<lparr>pixel_to_cm_ratio = 0.2\<rparr>"

text \<open>\<open>distance\<close>: planar Euclidean distance of two landmarks.\<close>

definition distance :: "keypoint \<Rightarrow> keypoint \<Rightarrow> real" where
  "distance point1 point2 =
     sqrt (of_int ((x point1 - x point2)\<^sup>2 + (y point1 - y point2)\<^sup>2))"

text \<open>A measurement value: a number of centimetres, or the size label.\<close>

datatype mval = Num real | Str string

text \<open>\<open>determine_size\<close>, on the dict of numeric measurements it is called with.\<close>

definition determine_size :: "(string, real) dict \<Rightarrow> string" where
  "determine_size measurements =
     (if measurements = [] \<or> map_of measurements ''chest'' = None then ''M''
      else
        let chest = (case map_of measurements ''chest'' of Some c \<Rightarrow> c | None \<Rightarrow> 0)
        in if chest < 85 then ''XS''
           else if chest < 95 then ''S''
           else if chest < 105 then ''M''
           else if chest < 115 then ''L''
           else if chest < 125 then ''XL''
           else ''XXL'')"

text \<open>Lines 44-55: the midpoint of the hips, when both are present.\<close>

definition mid_hip_of :: "keypoints \<Rightarrow> keypoint option" where
  "mid_hip_of keypoints =
     (case (map_of keypoints left_hip_idx, map_of keypoints right_hip_idx) of
        (Some left_hip, Some right_hip) \<Rightarrow>
          Some \<lparr>x = (x left_hip + x right_hip) div 2,
                y = (y left_hip + y right_hip) div 2,
                z = (z left_hip + z right_hip) / 2,
                v = (v left_hip + v right_hip) / 2\<rparr>
      | _ \<Rightarrow> None)"

text \<open>Lines 60-65: shoulder width.\<close>

definition shoulder_width_block ::
  "calculator \<Rightarrow> keypoints \<Rightarrow> (string, real) dict \<Rightarrow> (string, real) dict" where
  "shoulder_width_block self keypoints measurements =
     (case (map_of keypoints left_shoulder_idx, map_of keypoints right_shoulder_idx) of
        (Some left_shoulder, Some right_shoulder) \<Rightarrow>
          let shoulder_width_px = distance left_shoulder right_shoulder
          in AList.update ''shoulder_width''
               (round1 (shoulder_width_px * pixel_to_cm_ratio self)) measurements
      | _ \<Rightarrow> measurements)"

text \<open>
  One limb of three landmarks (lines 70-78, 80-88, 102-110, 112-120): the list to append
  to the lengths, empty unless all three landmarks are present.
\<close>

definition limb_length ::
  "calculator \<Rightarrow> keypoints \<Rightarrow> nat \<Rightarrow> nat \<Rightarrow> nat \<Rightarrow> real list" where
  "limb_length self keypoints i j k =
     (case (map_of keypoints i, map_of keypoints j, map_of keypoints k) of
        (Some a, Some b, Some c) \<Rightarrow>
          let upper_px = distance a b; lower_px = distance b c
          in [(upper_px + lower_px) * pixel_to_cm_ratio self]
      | _ \<Rightarrow> [])"

text \<open>Lines 67-91: arm length, the mean over the arms that qualify.\<close>

definition arm_length_block ::
  "calculator \<Rightarrow> keypoints \<Rightarrow> (string, real) dict \<Rightarrow> (string, real) dict" where
  "arm_length_block self keypoints measurements =
     (let arm_lengths =
            limb_length self keypoints left_shoulder_idx left_elbow_idx left_wrist_idx
            @ limb_length self keypoints right_shoulder_idx right_elbow_idx right_wrist_idx
      in if arm_lengths \<noteq> []
         then AList.update ''arm_length''
                (round1 (sum_list arm_lengths / real (length arm_lengths))) measurements
         else measurements)"

text \<open>Lines 93-97: torso length, from the neck to the midpoint of the hips.\<close>

definition torso_length_block ::
  "calculator \<Rightarrow> keypoints \<Rightarrow> (string, real) dict \<Rightarrow> (string, real) dict" where
  "torso_length_block self keypoints measurements =
     (case (map_of keypoints neck_idx, mid_hip_of keypoints) of
        (Some neck, Some mid_hip) \<Rightarrow>
          let torso_px = distance neck mid_hip
          in AList.update ''torso_length''
               (round1 (torso_px * pixel_to_cm_ratio self)) measurements
      | _ \<Rightarrow> measurements)"

text \<open>Lines 99-123: leg length, the mean over the legs that qualify.\<close>

definition leg_length_block ::
  "calculator \<Rightarrow> keypoints \<Rightarrow> (string, real) dict \<Rightarrow> (string, real) dict" where
  "leg_length_block self keypoints measurements =
     (let leg_lengths =
            limb_length self keypoints left_hip_idx left_knee_idx left_ankle_idx
            @ limb_length self keypoints right_hip_idx right_knee_idx right_ankle_idx
      in if leg_lengths \<noteq> []
         then AList.update ''leg_length''
                (round1 (sum_list leg_lengths / real (length leg_lengths))) measurements
         else measurements)"

text \<open>Lines 125-131: the height estimate, read back from the dict.\<close>

definition estimated_height_block :: "(string, real) dict \<Rightarrow> (string, real) dict" where
  "estimated_height_block measurements =
     (case (map_of measurements ''torso_length'', map_of measurements ''leg_length'') of
        (Some torso_length, Some leg_length) \<Rightarrow>
          let estimated_head = torso_length * 0.2
          in AList.update ''estimated_height''
               (round1 (torso_length + leg_length + estimated_head)) measurements
      | _ \<Rightarrow> measurements)"

text \<open>Lines 135-137: chest circumference.\<close>

definition chest_block ::
  "calculator \<Rightarrow> keypoints \<Rightarrow> (string, real) dict \<Rightarrow> (string, real) dict" where
  "chest_block self keypoints measurements =
     (case (map_of keypoints left_shoulder_idx, map_of keypoints right_shoulder_idx) of
        (Some left_shoulder, Some right_shoulder) \<Rightarrow>
          let chest_width_px = distance left_shoulder right_shoulder * 1.4
          in AList.update ''chest''
               (round1 (chest_width_px * pixel_to_cm_ratio self * 3.14159 / 2)) measurements
      | _ \<Rightarrow> measurements)"

text \<open>Lines 139-145: hip and waist circumference.\<close>

definition hips_block ::
  "calculator \<Rightarrow> keypoints \<Rightarrow> (string, real) dict \<Rightarrow> (string, real) dict" where
  "hips_block self keypoints measurements =
     (case (map_of keypoints left_hip_idx, map_of keypoints right_hip_idx) of
        (Some left_hip, Some right_hip) \<Rightarrow>
          let hip_width_px = distance left_hip right_hip * 1.2;
              measurements1 =
                AList.update ''hips''
                  (round1 (hip_width_px * pixel_to_cm_ratio self * 3.14159 / 2)) measurements;
              waist_width_px = hip_width_px * 0.9
          in AList.update ''waist''
               (round1 (waist_width_px * pixel_to_cm_ratio self * 3.14159 / 2)) measurements1
      | _ \<Rightarrow> measurements)"

text \<open>Lines 57-145: the numeric measurements, block after block.\<close>

definition numeric_measurements :: "calculator \<Rightarrow> keypoints \<Rightarrow> (string, real) dict" where
  "numeric_measurements self keypoints =
     hips_block self keypoints
       (chest_block self keypoints
         (estimated_height_block
           (leg_length_block self keypoints
             (torso_length_block self keypoints
               (arm_length_block self keypoints
                 (shoulder_width_block self keypoints []))))))"

text \<open>Lines 147-150: the size label is stored last, in the same dict.\<close>

definition with_size :: "(string, real) dict \<Rightarrow> (string, mval) dict" where
  "with_size measurements =
     AList.update ''size'' (Str (determine_size measurements))
       (map (\<lambda>(k, a). (k, Num a)) measurements)"

text \<open>Lines 38-41: the calibration from the distance sensor.\<close>

definition calibrate :: "calculator \<Rightarrow> real \<Rightarrow> calculator" where
  "calibrate self actual_distance =
     (if 30 < actual_distance \<and> actual_distance < 300
      then self\<lparr>pixel_to_cm_ratio := 0.15 + actual_distance / 1000\<rparr>
      else self)"

text \<open>
  \<open>calculate_from_keypoints\<close>: the result (\<open>None\<close> for Python's \<open>None\<close>) and the object
  after the call.
\<close>

definition calculate_from_keypoints ::
  "calculator \<Rightarrow> keypoints option \<Rightarrow> real
     \<Rightarrow> (string, mval) dict option \<times> calculator" where
  "calculate_from_keypoints self keypoints actual_distance =
     (case keypoints of
        None \<Rightarrow> (None, self)
      | Some kps \<Rightarrow>
          if kps = [] then (None, self)
          else
            let self1 = calibrate self actual_distance
            in (Some (with_size (numeric_measurements self1 kps)), self1))"


section \<open>ClothingOverlay (clothing-overlay-code.py)\<close>

text \<open>
  What a call can raise: \<open>cv2.error\<close> from OpenCV, and \<open>TypeError\<close> from subscripting
  \<open>None\<close>.
\<close>

datatype error = Cv2Error | TypeError

text \<open>
  An image is a numpy array of shape \<open>(rows, cols, channels)\<close>.  The code below reads
  shapes only, so the pixel buffer is kept as an opaque payload.
\<close>

record 'a image =
  rows :: nat
  cols :: nat
  pixels :: 'a

text \<open>
  \<open>cv2.resize(src, (width, height), interpolation=cv2.INTER_AREA)\<close> is OpenCV's, not this
  repository's.  Its contract: an empty source or an empty target size (a width or height
  that is not positive) is rejected with \<open>cv2.error\<close>; otherwise the result has shape
  \<open>(height, width)\<close>.  The resampled pixels are the parameter \<open>inter_area\<close>.
\<close>

definition cv2_resize ::
  "('a image \<Rightarrow> nat \<Rightarrow> nat \<Rightarrow> 'a) \<Rightarrow> 'a image \<Rightarrow> int \<times> int \<Rightarrow> error + 'a image" where
  "cv2_resize inter_area src dsize =
     (case dsize of (width, height) \<Rightarrow>
        if rows src = 0 \<or> cols src = 0 \<or> width \<le> 0 \<or> height \<le> 0 then Inl Cv2Error
        else Inr \<lparr>rows = nat height, cols = nat width,
                  pixels = inter_area src (nat width) (nat height)\<rparr>)"

text \<open>
  The length of the numpy slice \<open>a[start:stop]\<close> along an axis of length \<open>n\<close>: negative
  indices count from the end, and both ends are clipped to the axis.
\<close>

definition slice_len :: "int \<Rightarrow> int \<Rightarrow> int \<Rightarrow> int" where
  "slice_len n start stop =
     (let lo = (if start < 0 then max 0 (start + n) else min start n);
          hi = (if stop < 0 then max 0 (stop + n) else min stop n)
      in max 0 (hi - lo))"

text \<open>
  The object: \<open>self.garments\<close>, garment kind to variant to image.  After \<open>__init__\<close> no
  stored image is \<open>None\<close> (a placeholder replaces it), so a missing variant is the only
  way for the inner \<open>get\<close> to give \<open>None\<close>.
\<close>

record 'a clothing_overlay =
  garments :: "(string, (string, 'a image) dict) dict"

text \<open>
  \<open>_create_placeholder\<close>, as far as the shape goes; the drawn pixels are the parameter
  \<open>draw\<close>.
\<close>

definition create_placeholder ::
  "(nat \<Rightarrow> nat \<Rightarrow> string \<Rightarrow> 'a) \<Rightarrow> nat \<Rightarrow> nat \<Rightarrow> string \<Rightarrow> 'a image" where
  "create_placeholder draw width height garment_type =
     \<lparr>rows = height, cols = width, pixels = draw width height garment_type\<rparr>"

definition upper_body :: "string list" where
  "upper_body = [''tshirt'', ''shirt'', ''jacket'']"

text \<open>\<open>__init__\<close> when no image file exists yet: every entry is a placeholder.\<close>

definition init_overlay :: "(nat \<Rightarrow> nat \<Rightarrow> string \<Rightarrow> 'a) \<Rightarrow> 'a clothing_overlay" where
  "init_overlay draw =
     \<lparr>garments =
        map (\<lambda>garment.
               (garment,
                map (\<lambda>gender.
                       (gender,
                        if garment \<in> set upper_body
                        then create_placeholder draw 200 300 garment
                        else create_placeholder draw 200 400 garment))
                  [''male'', ''female'']))
          [''tshirt'', ''shirt'', ''jacket'', ''pants'']\<rparr>"

text \<open>Lines 125-137: the size of an upper-body garment.\<close>

definition upper_size ::
  "keypoint \<Rightarrow> keypoint \<Rightarrow> keypoint option \<Rightarrow> keypoint option \<Rightarrow> int \<times> int" where
  "upper_size left_shoulder right_shoulder left_hip right_hip =
     (let shoulder_width = \<bar>x right_shoulder - x left_shoulder\<bar>;
          garment_width = py_int (of_int shoulder_width * 1.5);
          garment_height =
            (case (left_hip, right_hip) of
               (Some lh, Some rh) \<Rightarrow>
                 let left_length = \<bar>y lh - y left_shoulder\<bar>;
                     right_length = \<bar>y rh - y right_shoulder\<bar>
                 in py_int (of_int (left_length + right_length) / 2 * 1.1)
             | _ \<Rightarrow> py_int (of_int garment_width * 1.5))
      in (garment_width, garment_height))"

text \<open>Lines 146-148: the anchor of an upper-body garment.\<close>

definition upper_pos :: "keypoint \<Rightarrow> keypoint \<Rightarrow> int \<Rightarrow> int \<times> int" where
  "upper_pos left_shoulder right_shoulder garment_height =
     (min (x left_shoulder) (x right_shoulder),
      min (y left_shoulder) (y right_shoulder) - py_int (of_int garment_height * 0.1))"

text \<open>
  Lines 153-170: the size of pants.  In the last branch \<open>int\<close> is applied to an integer
  and changes nothing.
\<close>

definition pants_size ::
  "keypoint \<Rightarrow> keypoint \<Rightarrow> keypoint option \<Rightarrow> keypoint option
     \<Rightarrow> keypoint option \<Rightarrow> keypoint option \<Rightarrow> int \<times> int" where
  "pants_size left_hip right_hip left_knee right_knee left_ankle right_ankle =
     (let hip_width = \<bar>x right_hip - x left_hip\<bar>;
          garment_width = py_int (of_int hip_width * 1.2);
          garment_height =
            (case (left_ankle, right_ankle) of
               (Some la, Some ra) \<Rightarrow>
                 let left_length = \<bar>y la - y left_hip\<bar>;
                     right_length = \<bar>y ra - y right_hip\<bar>
                 in py_int (of_int (left_length + right_length) / 2 * 1.0)
             | _ \<Rightarrow>
                 (case (left_knee, right_knee) of
                    (Some lk, Some rk) \<Rightarrow>
                      let left_length = of_int \<bar>y lk - y left_hip\<bar> * 2.1;
                          right_length = of_int \<bar>y rk - y right_hip\<bar> * 2.1
                      in py_int ((left_length + right_length) / 2)
                  | _ \<Rightarrow> garment_width * 2))
      in (garment_width, garment_height))"

text \<open>Lines 179-181: the anchor of pants.\<close>

definition pants_pos :: "keypoint \<Rightarrow> keypoint \<Rightarrow> int \<times> int" where
  "pants_pos left_hip right_hip =
     (min (x left_hip) (x right_hip), min (y left_hip) (y right_hip))"

text \<open>
  Lines 183-189: the anchor moved into the frame, and the extent of the region of
  interest.  The arguments are the frame's \<open>h\<close> and \<open>w\<close>, the resized garment's shape
  and the anchor; the result is \<open>(pos_x, pos_y, roi_width, roi_height)\<close>.
\<close>

definition placement ::
  "int \<Rightarrow> int \<Rightarrow> int \<Rightarrow> int \<Rightarrow> int \<Rightarrow> int \<Rightarrow> int \<times> int \<times> int \<times> int" where
  "placement h w garment_rows garment_cols pos_x0 pos_y0 =
     (let pos_x = max 0 (min pos_x0 (w - garment_cols));
          pos_y = max 0 (min pos_y0 (h - garment_rows));
          roi_width = min garment_cols (w - pos_x);
          roi_height = min garment_rows (h - pos_y)
      in (pos_x, pos_y, roi_width, roi_height))"

text \<open>
  Lines 183-204, after the garment is resized and the anchor computed.  The source ends
  at the comment \<open># Apply\<close>: control falls off the end of the function, which returns
  Python's \<open>None\<close>.
\<close>

definition place_garment :: "'a image \<Rightarrow> 'a image \<Rightarrow> int \<times> int \<Rightarrow> 'a image option" where
  "place_garment result garment_resized pos =
     (let h = int (rows result); w = int (cols result)
      in case placement h w (int (rows garment_resized)) (int (cols garment_resized))
                (fst pos) (snd pos) of
           (pos_x, pos_y, roi_width, roi_height) \<Rightarrow>
             if roi_width \<le> 0 \<or> roi_height \<le> 0 then Some result
             else
               let roi_shape =
                     (slice_len h pos_y (pos_y + roi_height),
                      slice_len w pos_x (pos_x + roi_width));
                   garment_roi_shape =
                     (slice_len (int (rows garment_resized)) 0 roi_height,
                      slice_len (int (cols garment_resized)) 0 roi_width)
               in if roi_shape \<noteq> garment_roi_shape then Some result else None)"

text \<open>
  Lines 122-181: size, resize and anchor.  The \<open>else\<close> branch is taken by every kind that
  is not an upper-body one; there a missing hip is a subscript of \<open>None\<close>.
\<close>

definition size_and_anchor ::
  "('a image \<Rightarrow> nat \<Rightarrow> nat \<Rightarrow> 'a) \<Rightarrow> 'a image \<Rightarrow> keypoints \<Rightarrow> string
     \<Rightarrow> error + ('a image \<times> int \<times> int)" where
  "size_and_anchor inter_area garment_img kps garment_type =
     (if garment_type \<in> set upper_body then
        (case (map_of kps 11, map_of kps 12) of
           (Some left_shoulder, Some right_shoulder) \<Rightarrow>
             (case upper_size left_shoulder right_shoulder (map_of kps 23) (map_of kps 24) of
                (garment_width, garment_height) \<Rightarrow>
                  (case cv2_resize inter_area garment_img (garment_width, garment_height) of
                     Inl e \<Rightarrow> Inl e
                   | Inr garment_resized \<Rightarrow>
                       Inr (garment_resized,
                            upper_pos left_shoulder right_shoulder garment_height)))
         | _ \<Rightarrow> Inl TypeError)
      else
        (case (map_of kps 23, map_of kps 24) of
           (Some left_hip, Some right_hip) \<Rightarrow>
             (case pants_size left_hip right_hip (map_of kps 25) (map_of kps 26)
                     (map_of kps 27) (map_of kps 28) of
                (garment_width, garment_height) \<Rightarrow>
                  (case cv2_resize inter_area garment_img (garment_width, garment_height) of
                     Inl e \<Rightarrow> Inl e
                   | Inr garment_resized \<Rightarrow>
                       Inr (garment_resized, pants_pos left_hip right_hip)))
         | _ \<Rightarrow> Inl TypeError))"

text \<open>
  \<open>overlay_garment\<close>: \<open>Inr (Some f)\<close> returns the frame \<open>f\<close>, \<open>Inr None\<close> returns Python's
  \<open>None\<close>, \<open>Inl e\<close> raises \<open>e\<close>.  \<open>frame.copy()\<close> has the value of \<open>frame\<close>.  The last
  argument is the parameter \<open>distance\<close> of the source, which the body never reads.
\<close>

definition overlay_garment ::
  "('a image \<Rightarrow> nat \<Rightarrow> nat \<Rightarrow> 'a) \<Rightarrow> 'a clothing_overlay \<Rightarrow> 'a image \<Rightarrow> keypoints option
     \<Rightarrow> string \<Rightarrow> string \<Rightarrow> real \<Rightarrow> error + 'a image option" where
  "overlay_garment inter_area self frame keypoints garment_type gender distance' =
     (case keypoints of
        None \<Rightarrow> Inr (Some frame)
      | Some kps \<Rightarrow>
          if kps = [] \<or> map_of (garments self) garment_type = None then Inr (Some frame)
          else
            (case (case map_of (garments self) garment_type of
                     None \<Rightarrow> None
                   | Some variants \<Rightarrow> map_of variants gender) of
               None \<Rightarrow> Inr (Some frame)
             | Some garment_img \<Rightarrow>
                 if garment_type \<in> set upper_body
                    \<and> (map_of kps 11 = None \<or> map_of kps 12 = None)
                 then Inr (Some frame)
                 else if garment_type = ''pants''
                    \<and> (map_of kps 23 = None \<or> map_of kps 24 = None)
                 then Inr (Some frame)
                 else
                   let result = frame
                   in (case size_and_anchor inter_area garment_img kps garment_type of
                         Inl e \<Rightarrow> Inl e
                       | Inr (garment_resized, pos) \<Rightarrow>
                           Inr (place_garment result garment_resized pos))))"

text \<open>A landmark is present when the keypoint mapping has an entry for its index.\<close>

abbreviation present :: "keypoints \<Rightarrow> nat \<Rightarrow> bool" where
  "present kps i \<equiv> map_of kps i \<noteq> None"

section \<open>Example inputs\<close>

text \<open>
  The pose of the specification's end-to-end example: both shoulders and both hips, and
  nothing else.
\<close>

definition kp :: "int \<Rightarrow> int \<Rightarrow> keypoint" where
  "kp a b = \<lparr>x = a, y = b, z = 0, v = 1\<rparr>"

definition standing_pose :: keypoints where
  "standing_pose = [(11, kp 100 50), (12, kp 200 50), (23, kp 110 300), (24, kp 190 300)]"

text \<open>The hips alone, and a pose with shoulders 200 pixels apart.\<close>

definition hips_only_pose :: keypoints where
  "hips_only_pose = [(23, kp 110 300), (24, kp 190 300)]"

definition broad_pose :: keypoints where
  "broad_pose = [(11, kp 100 50), (12, kp 300 50)]"

text \<open>
  Both shoulders on one vertical line (a subject seen from the side), and shoulders
  600 pixels apart (a subject close to the camera).
\<close>

definition side_pose :: keypoints where
  "side_pose = [(11, kp 100 50), (12, kp 100 60)]"

definition wide_pose :: keypoints where
  "wide_pose = [(11, kp 0 50), (12, kp 600 50)]"

text \<open>
  A 640 x 480 camera frame, and an overlay object whose images are all placeholders.
  The pixel buffers are opaque: a number stands for each.
\<close>

definition camera_frame :: "nat image" where
  "camera_frame = \<lparr>rows = 480, cols = 640, pixels = 0\<rparr>"

definition drawn :: "nat \<Rightarrow> nat \<Rightarrow> string \<Rightarrow> nat" where
  "drawn width height garment_type = 1"

definition resampled :: "nat image \<Rightarrow> nat \<Rightarrow> nat \<Rightarrow> nat" where
  "resampled src width height = 2"

definition placeholder_overlay :: "nat clothing_overlay" where
  "placeholder_overlay = init_overlay drawn"

section \<open>Facts about the measurement model\<close>

lemmas idx_defs =
  left_shoulder_idx_def right_shoulder_idx_def left_elbow_idx_def right_elbow_idx_def
  left_wrist_idx_def right_wrist_idx_def left_hip_idx_def right_hip_idx_def
  left_knee_idx_def right_knee_idx_def left_ankle_idx_def right_ankle_idx_def neck_idx_def

lemmas calc_defs =
  calculate_from_keypoints_def calibrate_def with_size_def numeric_measurements_def
  hips_block_def chest_block_def estimated_height_block_def leg_length_block_def
  torso_length_block_def arm_length_block_def shoulder_width_block_def limb_length_def
  mid_hip_of_def determine_size_def distance_def round1_def init_calculator_def idx_defs

lemmas pose_defs = standing_pose_def kp_def

subsection \<open>Calibration\<close>


lemma calibrate_twice: "calibrate (calibrate self d) d = calibrate self d"
  by (simp add: calibrate_def)








text \<open>
  C6.  Two calls in succession with the same keypoint mapping and the same proximity
  return the same result, whatever the first call did to the ratio; the second call also
  leaves the object as the first one left it.
\<close>

theorem calculate_idempotent:
  "fst (calculate_from_keypoints (snd (calculate_from_keypoints self keypoints d)) keypoints d)
     = fst (calculate_from_keypoints self keypoints d)
   \<and> snd (calculate_from_keypoints (snd (calculate_from_keypoints self keypoints d)) keypoints d)
     = snd (calculate_from_keypoints self keypoints d)"
  by (simp add: calculate_from_keypoints_def calibrate_twice Let_def split: option.splits)

subsection \<open>The ratio stays in range\<close>




subsection \<open>Which fields a call stores\<close>

lemma shoulder_width_block_dom:
  "map_of (shoulder_width_block self kps m) k \<noteq> None \<longleftrightarrow>
     (k = ''shoulder_width'' \<and> present kps left_shoulder_idx
        \<and> present kps right_shoulder_idx) \<or> map_of m k \<noteq> None"
  by (auto simp add: shoulder_width_block_def AList.update_conv' split: option.splits)

lemma limb_length_empty:
  "limb_length self kps i j k = [] \<longleftrightarrow>
     \<not> (present kps i \<and> present kps j \<and> present kps k)"
  by (auto simp add: limb_length_def split: option.splits)

lemma arm_length_block_dom:
  "map_of (arm_length_block self kps m) k \<noteq> None \<longleftrightarrow>
     (k = ''arm_length'' \<and>
        ((present kps left_shoulder_idx \<and> present kps left_elbow_idx
            \<and> present kps left_wrist_idx)
         \<or> (present kps right_shoulder_idx \<and> present kps right_elbow_idx
            \<and> present kps right_wrist_idx)))
     \<or> map_of m k \<noteq> None"
  by (auto simp add: arm_length_block_def AList.update_conv' limb_length_empty Let_def)

lemma mid_hip_of_dom:
  "mid_hip_of kps \<noteq> None \<longleftrightarrow> present kps left_hip_idx \<and> present kps right_hip_idx"
  by (auto simp add: mid_hip_of_def split: option.splits)

lemma torso_length_block_dom:
  "map_of (torso_length_block self kps m) k \<noteq> None \<longleftrightarrow>
     (k = ''torso_length'' \<and> present kps neck_idx
        \<and> present kps left_hip_idx \<and> present kps right_hip_idx)
     \<or> map_of m k \<noteq> None"
proof (cases "mid_hip_of kps")
  case None
  with mid_hip_of_dom [of kps] show ?thesis
    by (auto simp add: torso_length_block_def split: option.splits)
next
  case (Some a)
  with mid_hip_of_dom [of kps] show ?thesis
    by (auto simp add: torso_length_block_def AList.update_conv' split: option.splits)
qed

lemma leg_length_block_dom:
  "map_of (leg_length_block self kps m) k \<noteq> None \<longleftrightarrow>
     (k = ''leg_length'' \<and>
        ((present kps left_hip_idx \<and> present kps left_knee_idx
            \<and> present kps left_ankle_idx)
         \<or> (present kps right_hip_idx \<and> present kps right_knee_idx
            \<and> present kps right_ankle_idx)))
     \<or> map_of m k \<noteq> None"
  by (auto simp add: leg_length_block_def AList.update_conv' limb_length_empty Let_def)

lemma estimated_height_block_dom:
  "map_of (estimated_height_block m) k \<noteq> None \<longleftrightarrow>
     (k = ''estimated_height'' \<and> map_of m ''torso_length'' \<noteq> None
        \<and> map_of m ''leg_length'' \<noteq> None)
     \<or> map_of m k \<noteq> None"
  by (auto simp add: estimated_height_block_def AList.update_conv' split: option.splits)

lemma chest_block_dom:
  "map_of (chest_block self kps m) k \<noteq> None \<longleftrightarrow>
     (k = ''chest'' \<and> present kps left_shoulder_idx
        \<and> present kps right_shoulder_idx) \<or> map_of m k \<noteq> None"
  by (auto simp add: chest_block_def AList.update_conv' split: option.splits)

lemma hips_block_dom:
  "map_of (hips_block self kps m) k \<noteq> None \<longleftrightarrow>
     ((k = ''hips'' \<or> k = ''waist'') \<and> present kps left_hip_idx
        \<and> present kps right_hip_idx) \<or> map_of m k \<noteq> None"
  by (auto simp add: hips_block_def AList.update_conv' Let_def split: option.splits)

lemmas block_doms =
  shoulder_width_block_dom arm_length_block_dom torso_length_block_dom leg_length_block_dom
  estimated_height_block_dom chest_block_dom hips_block_dom

lemma with_size_lookup:
  "map_of (with_size m) k =
     (if k = ''size'' then Some (Str (determine_size m)) else map_option Num (map_of m k))"
  by (simp add: with_size_def AList.update_conv' map_of_map comp_def)

lemma with_size_dom:
  "map_of (with_size m) ''shoulder_width'' \<noteq> None \<longleftrightarrow> map_of m ''shoulder_width'' \<noteq> None"
  "map_of (with_size m) ''arm_length'' \<noteq> None \<longleftrightarrow> map_of m ''arm_length'' \<noteq> None"
  "map_of (with_size m) ''torso_length'' \<noteq> None \<longleftrightarrow> map_of m ''torso_length'' \<noteq> None"
  "map_of (with_size m) ''leg_length'' \<noteq> None \<longleftrightarrow> map_of m ''leg_length'' \<noteq> None"
  "map_of (with_size m) ''estimated_height'' \<noteq> None \<longleftrightarrow>
     map_of m ''estimated_height'' \<noteq> None"
  "map_of (with_size m) ''chest'' \<noteq> None \<longleftrightarrow> map_of m ''chest'' \<noteq> None"
  "map_of (with_size m) ''hips'' \<noteq> None \<longleftrightarrow> map_of m ''hips'' \<noteq> None"
  "map_of (with_size m) ''waist'' \<noteq> None \<longleftrightarrow> map_of m ''waist'' \<noteq> None"
  by (simp_all add: with_size_lookup)

lemma numeric_measurements_dom:
  "map_of (numeric_measurements self kps) ''shoulder_width'' \<noteq> None \<longleftrightarrow>
     present kps left_shoulder_idx \<and> present kps right_shoulder_idx"
  "map_of (numeric_measurements self kps) ''arm_length'' \<noteq> None \<longleftrightarrow>
     present kps left_shoulder_idx \<and> present kps left_elbow_idx \<and> present kps left_wrist_idx
     \<or> present kps right_shoulder_idx \<and> present kps right_elbow_idx
        \<and> present kps right_wrist_idx"
  "map_of (numeric_measurements self kps) ''torso_length'' \<noteq> None \<longleftrightarrow>
     present kps neck_idx \<and> present kps left_hip_idx \<and> present kps right_hip_idx"
  "map_of (numeric_measurements self kps) ''leg_length'' \<noteq> None \<longleftrightarrow>
     present kps left_hip_idx \<and> present kps left_knee_idx \<and> present kps left_ankle_idx
     \<or> present kps right_hip_idx \<and> present kps right_knee_idx \<and> present kps right_ankle_idx"
  "map_of (numeric_measurements self kps) ''estimated_height'' \<noteq> None \<longleftrightarrow>
     map_of (numeric_measurements self kps) ''torso_length'' \<noteq> None
     \<and> map_of (numeric_measurements self kps) ''leg_length'' \<noteq> None"
  "map_of (numeric_measurements self kps) ''chest'' \<noteq> None \<longleftrightarrow>
     present kps left_shoulder_idx \<and> present kps right_shoulder_idx"
  "map_of (numeric_measurements self kps) ''hips'' \<noteq> None \<longleftrightarrow>
     present kps left_hip_idx \<and> present kps right_hip_idx"
  "map_of (numeric_measurements self kps) ''waist'' \<noteq> None \<longleftrightarrow>
     present kps left_hip_idx \<and> present kps right_hip_idx"
  unfolding numeric_measurements_def block_doms by simp_all

lemma standing_call:
  "calculate_from_keypoints init_calculator (Some standing_pose) 150 =
     (Some [(''shoulder_width'', Num 30), (''chest'', Num 66), (''hips'', Num 45.2),
            (''waist'', Num 40.7), (''size'', Str ''XS'')],
      \<lparr>pixel_to_cm_ratio = 0.3\<rparr>)"
  by (simp add: calc_defs pose_defs Let_def)

lemma hips_only_call:
  "calculate_from_keypoints init_calculator (Some hips_only_pose) 400 =
     (Some [(''hips'', Num 30.2), (''waist'', Num 27.1), (''size'', Str ''M'')],
      \<lparr>pixel_to_cm_ratio = 0.2\<rparr>)"
  by (simp add: calc_defs hips_only_pose_def kp_def Let_def)

lemma broad_call:
  "calculate_from_keypoints init_calculator (Some broad_pose) 150 =
     (Some [(''shoulder_width'', Num 60), (''chest'', Num 131.9), (''size'', Str ''XXL'')],
      \<lparr>pixel_to_cm_ratio = 0.3\<rparr>)"
  by (simp add: calc_defs broad_pose_def kp_def Let_def)

text \<open>
  C5.  For a non-empty keypoint mapping the call returns a measurement set, and a field
  is a key of it exactly when its landmarks are present: \<open>arm_length\<close> when some arm has
  shoulder, elbow and wrist; \<open>leg_length\<close> when some leg has hip, knee and ankle;
  \<open>torso_length\<close> when the neck and both hips are there; \<open>estimated_height\<close> when
  \<open>torso_length\<close> and \<open>leg_length\<close> both are keys; \<open>chest\<close> and \<open>shoulder_width\<close> when both
  shoulders are there; \<open>hips\<close> and \<open>waist\<close> when both hips are there.  A field whose
  landmarks are missing is no key at all, so it is never stored as zero.
\<close>

theorem fields_follow_landmarks:
  assumes "kps \<noteq> []"
  shows "\<exists>m. fst (calculate_from_keypoints self (Some kps) d) = Some m
    \<and> (map_of m ''arm_length'' \<noteq> None \<longleftrightarrow>
         present kps left_shoulder_idx \<and> present kps left_elbow_idx
           \<and> present kps left_wrist_idx
         \<or> present kps right_shoulder_idx \<and> present kps right_elbow_idx
           \<and> present kps right_wrist_idx)
    \<and> (map_of m ''leg_length'' \<noteq> None \<longleftrightarrow>
         present kps left_hip_idx \<and> present kps left_knee_idx \<and> present kps left_ankle_idx
         \<or> present kps right_hip_idx \<and> present kps right_knee_idx
           \<and> present kps right_ankle_idx)
    \<and> (map_of m ''torso_length'' \<noteq> None \<longleftrightarrow>
         present kps neck_idx \<and> present kps left_hip_idx \<and> present kps right_hip_idx)
    \<and> (map_of m ''estimated_height'' \<noteq> None \<longleftrightarrow>
         map_of m ''torso_length'' \<noteq> None \<and> map_of m ''leg_length'' \<noteq> None)
    \<and> (map_of m ''chest'' \<noteq> None \<longleftrightarrow>
         present kps left_shoulder_idx \<and> present kps right_shoulder_idx)
    \<and> (map_of m ''shoulder_width'' \<noteq> None \<longleftrightarrow>
         present kps left_shoulder_idx \<and> present kps right_shoulder_idx)
    \<and> (map_of m ''hips'' \<noteq> None \<longleftrightarrow>
         present kps left_hip_idx \<and> present kps right_hip_idx)
    \<and> (map_of m ''waist'' \<noteq> None \<longleftrightarrow>
         present kps left_hip_idx \<and> present kps right_hip_idx)"
proof -
  let ?ms = "numeric_measurements (calibrate self d) kps"
  have r: "fst (calculate_from_keypoints self (Some kps) d) = Some (with_size ?ms)"
    using assms by (simp add: calculate_from_keypoints_def Let_def)
  have arm: "map_of (with_size ?ms) ''arm_length'' \<noteq> None \<longleftrightarrow>
         present kps left_shoulder_idx \<and> present kps left_elbow_idx
           \<and> present kps left_wrist_idx
         \<or> present kps right_shoulder_idx \<and> present kps right_elbow_idx
           \<and> present kps right_wrist_idx"
    unfolding with_size_dom by (rule numeric_measurements_dom)
  have leg: "map_of (with_size ?ms) ''leg_length'' \<noteq> None \<longleftrightarrow>
         present kps left_hip_idx \<and> present kps left_knee_idx \<and> present kps left_ankle_idx
         \<or> present kps right_hip_idx \<and> present kps right_knee_idx
           \<and> present kps right_ankle_idx"
    unfolding with_size_dom by (rule numeric_measurements_dom)
  have torso: "map_of (with_size ?ms) ''torso_length'' \<noteq> None \<longleftrightarrow>
         present kps neck_idx \<and> present kps left_hip_idx \<and> present kps right_hip_idx"
    unfolding with_size_dom by (rule numeric_measurements_dom)
  have height: "map_of (with_size ?ms) ''estimated_height'' \<noteq> None \<longleftrightarrow>
         map_of (with_size ?ms) ''torso_length'' \<noteq> None
         \<and> map_of (with_size ?ms) ''leg_length'' \<noteq> None"
    unfolding with_size_dom by (rule numeric_measurements_dom)
  have chest: "map_of (with_size ?ms) ''chest'' \<noteq> None \<longleftrightarrow>
         present kps left_shoulder_idx \<and> present kps right_shoulder_idx"
    unfolding with_size_dom by (rule numeric_measurements_dom)
  have shoulder: "map_of (with_size ?ms) ''shoulder_width'' \<noteq> None \<longleftrightarrow>
         present kps left_shoulder_idx \<and> present kps right_shoulder_idx"
    unfolding with_size_dom by (rule numeric_measurements_dom)
  have hips: "map_of (with_size ?ms) ''hips'' \<noteq> None \<longleftrightarrow>
         present kps left_hip_idx \<and> present kps right_hip_idx"
    unfolding with_size_dom by (rule numeric_measurements_dom)
  have waist: "map_of (with_size ?ms) ''waist'' \<noteq> None \<longleftrightarrow>
         present kps left_hip_idx \<and> present kps right_hip_idx"
    unfolding with_size_dom by (rule numeric_measurements_dom)
  show ?thesis
    by (rule exI [of _ "with_size ?ms"])
       (intro conjI r arm leg torso height chest shoulder hips waist)
qed

theorem fields_follow_landmarks_witness:
  "standing_pose \<noteq> []
   \<and> (\<exists>m. fst (calculate_from_keypoints init_calculator (Some standing_pose) 150) = Some m
        \<and> map_of m ''chest'' \<noteq> None \<and> map_of m ''shoulder_width'' \<noteq> None
        \<and> map_of m ''hips'' \<noteq> None \<and> map_of m ''waist'' \<noteq> None
        \<and> map_of m ''arm_length'' = None \<and> map_of m ''leg_length'' = None
        \<and> map_of m ''torso_length'' = None \<and> map_of m ''estimated_height'' = None)"
proof -
  have ne: "standing_pose \<noteq> []"
    by (simp add: standing_pose_def)
  from fields_follow_landmarks [OF ne, of init_calculator 150]
  show ?thesis
    by (simp add: ne standing_call)
qed

subsection \<open>The size label\<close>

lemma determine_size_bands:
  "determine_size ms =
     (case map_of ms ''chest'' of
        None \<Rightarrow> ''M''
      | Some chest \<Rightarrow>
          if chest < 85 then ''XS'' else if chest < 95 then ''S''
          else if chest < 105 then ''M'' else if chest < 115 then ''L''
          else if chest < 125 then ''XL'' else ''XXL'')"
  by (auto simp add: determine_size_def split: option.splits)

text \<open>The boundary values listed in the specification, and the default.\<close>

lemma determine_size_boundaries:
  "determine_size [(''chest'', 84.9)] = ''XS''"
  "determine_size [(''chest'', 85.0)] = ''S''"
  "determine_size [(''chest'', 94.9)] = ''S''"
  "determine_size [(''chest'', 95.0)] = ''M''"
  "determine_size [(''chest'', 104.9)] = ''M''"
  "determine_size [(''chest'', 105.0)] = ''L''"
  "determine_size [(''chest'', 114.9)] = ''L''"
  "determine_size [(''chest'', 115.0)] = ''XL''"
  "determine_size [(''chest'', 124.9)] = ''XL''"
  "determine_size [(''chest'', 125.0)] = ''XXL''"
  "determine_size [(''hips'', 90)] = ''M''"
  "determine_size [] = ''M''"
  by (simp_all add: determine_size_def)

text \<open>
  C4.  In every measurement set a call returns, the size label is determined by the chest
  entry of that set, in half-open bands: below 85 \<open>XS\<close>, from 85 below 95 \<open>S\<close>, from 95
  below 105 \<open>M\<close>, from 105 below 115 \<open>L\<close>, from 115 below 125 \<open>XL\<close>, from 125 on \<open>XXL\<close>;
  without a chest entry the label is \<open>M\<close>.  The chest entry is always a number.
\<close>

theorem size_label_bands:
  assumes "fst (calculate_from_keypoints self keypoints d) = Some m"
  shows "(map_of m ''chest'' = None \<longrightarrow> map_of m ''size'' = Some (Str ''M''))
       \<and> (\<forall>chest. map_of m ''chest'' = Some (Num chest) \<longrightarrow>
            (chest < 85 \<longrightarrow> map_of m ''size'' = Some (Str ''XS''))
          \<and> (85 \<le> chest \<and> chest < 95 \<longrightarrow> map_of m ''size'' = Some (Str ''S''))
          \<and> (95 \<le> chest \<and> chest < 105 \<longrightarrow> map_of m ''size'' = Some (Str ''M''))
          \<and> (105 \<le> chest \<and> chest < 115 \<longrightarrow> map_of m ''size'' = Some (Str ''L''))
          \<and> (115 \<le> chest \<and> chest < 125 \<longrightarrow> map_of m ''size'' = Some (Str ''XL''))
          \<and> (125 \<le> chest \<longrightarrow> map_of m ''size'' = Some (Str ''XXL'')))
       \<and> (\<forall>s. map_of m ''chest'' \<noteq> Some (Str s))"
proof -
  from assms obtain ms where m: "m = with_size ms"
    by (auto simp add: calculate_from_keypoints_def Let_def split: option.splits if_splits)
  have size: "map_of m ''size'' = Some (Str (determine_size ms))"
    and chest: "map_of m ''chest'' = map_option Num (map_of ms ''chest'')"
    unfolding m by (simp_all add: with_size_lookup)
  show ?thesis
    unfolding size chest determine_size_bands
    by (cases "map_of ms ''chest''") auto
qed

theorem size_label_bands_witness:
  "fst (calculate_from_keypoints init_calculator (Some standing_pose) 150) =
     Some [(''shoulder_width'', Num 30), (''chest'', Num 66), (''hips'', Num 45.2),
           (''waist'', Num 40.7), (''size'', Str ''XS'')]
   \<and> (66 :: real) < 85
   \<and> fst (calculate_from_keypoints init_calculator (Some hips_only_pose) 400) =
     Some [(''hips'', Num 30.2), (''waist'', Num 27.1), (''size'', Str ''M'')]
   \<and> fst (calculate_from_keypoints init_calculator (Some broad_pose) 150) =
     Some [(''shoulder_width'', Num 60), (''chest'', Num 131.9), (''size'', Str ''XXL'')]
   \<and> (125 :: real) \<le> 131.9"
  using size_label_bands [of init_calculator "Some standing_pose" 150
      "[(''shoulder_width'', Num 30), (''chest'', Num 66), (''hips'', Num 45.2),
        (''waist'', Num 40.7), (''size'', Str ''XS'')]"]
    size_label_bands [of init_calculator "Some hips_only_pose" 400
      "[(''hips'', Num 30.2), (''waist'', Num 27.1), (''size'', Str ''M'')]"]
    size_label_bands [of init_calculator "Some broad_pose" 150
      "[(''shoulder_width'', Num 60), (''chest'', Num 131.9), (''size'', Str ''XXL'')]"]
  by (simp add: standing_call hips_only_call broad_call)

section \<open>Facts about the overlay model\<close>

lemmas overlay_defs =
  overlay_garment_def size_and_anchor_def place_garment_def placement_def slice_len_def
  cv2_resize_def upper_size_def upper_pos_def pants_size_def pants_pos_def py_int_def
  upper_body_def init_overlay_def create_placeholder_def placeholder_overlay_def
  camera_frame_def

subsection \<open>The guards that return the frame\<close>

lemma overlay_guards:
  "overlay_garment inter_area self frame None garment_type gender d = Inr (Some frame)"
  "overlay_garment inter_area self frame (Some []) garment_type gender d = Inr (Some frame)"
  "map_of (garments self) garment_type = None \<Longrightarrow>
     overlay_garment inter_area self frame keypoints garment_type gender d = Inr (Some frame)"
  "map_of (garments self) garment_type = Some variants \<Longrightarrow> map_of variants gender = None \<Longrightarrow>
     overlay_garment inter_area self frame keypoints garment_type gender d = Inr (Some frame)"
  "garment_type \<in> set upper_body \<Longrightarrow> \<not> (present kps 11 \<and> present kps 12) \<Longrightarrow>
     overlay_garment inter_area self frame (Some kps) garment_type gender d = Inr (Some frame)"
  "\<not> (present kps 23 \<and> present kps 24) \<Longrightarrow>
     overlay_garment inter_area self frame (Some kps) ''pants'' gender d = Inr (Some frame)"
  by (auto simp add: overlay_garment_def upper_body_def split: option.splits)

subsection \<open>Where the function ends\<close>

lemma slice_len_inside:
  "0 \<le> lo \<Longrightarrow> 0 \<le> len \<Longrightarrow> lo + len \<le> n \<Longrightarrow> slice_len n lo (lo + len) = len"
  by (simp add: slice_len_def)

text \<open>
  Once the garment is resized, the safety check on the shapes never fires, and with a
  frame that is not empty neither does the check on the region: control always reaches
  the end of the source.
\<close>

lemma placement_fields:
  assumes "placement h w garment_rows garment_cols pos_x0 pos_y0 =
             (pos_x, pos_y, roi_width, roi_height)"
  shows "pos_x = max 0 (min pos_x0 (w - garment_cols))"
    and "pos_y = max 0 (min pos_y0 (h - garment_rows))"
    and "roi_width = min garment_cols (w - pos_x)"
    and "roi_height = min garment_rows (h - pos_y)"
  using assms by (auto simp add: placement_def Let_def)

lemma clamp_fits:
  fixes n :: int
  assumes "p = max 0 (min p0 (n - g))" and "r = min g (n - p)" and "g \<le> n"
  shows "0 \<le> p" and "p \<le> n - g" and "r = g"
  using assms by linarith+

lemma clamp_crops:
  fixes n :: int
  assumes "p = max 0 (min p0 (n - g))" and "r = min g (n - p)" and "n < g"
  shows "p = 0" and "r = n"
  using assms by linarith+

lemma clamp_region:
  fixes n :: int
  assumes "p = max 0 (min p0 (n - g))" and "r = min g (n - p)" and "0 < n" and "0 < g"
  shows "0 \<le> p" and "0 < r" and "p + r \<le> n" and "r \<le> g"
  using assms by linarith+

lemma place_garment_falls_off:
  assumes "0 < rows result" and "0 < cols result"
    and "0 < rows garment_resized" and "0 < cols garment_resized"
  shows "place_garment result garment_resized pos = None"
proof -
  let ?h = "int (rows result)" and ?w = "int (cols result)"
  let ?gr = "int (rows garment_resized)" and ?gc = "int (cols garment_resized)"
  obtain pos_x pos_y roi_width roi_height
    where p: "placement ?h ?w ?gr ?gc (fst pos) (snd pos) = (pos_x, pos_y, roi_width, roi_height)"
    by (cases "placement ?h ?w ?gr ?gc (fst pos) (snd pos)") auto
  have pos: "0 < ?h" "0 < ?w" "0 < ?gr" "0 < ?gc"
    using assms by simp_all
  note f = placement_fields [OF p]
  note cx = clamp_region [OF f(1) f(3) pos(2) pos(4)]
  note cy = clamp_region [OF f(2) f(4) pos(1) pos(3)]
  have "slice_len ?h pos_y (pos_y + roi_height) = roi_height"
    using cy by (intro slice_len_inside) simp_all
  moreover have "slice_len ?w pos_x (pos_x + roi_width) = roi_width"
    using cx by (intro slice_len_inside) simp_all
  moreover have "slice_len ?gr 0 roi_height = roi_height"
    using cy slice_len_inside [of 0 roi_height ?gr] by simp
  moreover have "slice_len ?gc 0 roi_width = roi_width"
    using cx slice_len_inside [of 0 roi_width ?gc] by simp
  moreover have "\<not> (roi_width \<le> 0 \<or> roi_height \<le> 0)"
    using cx cy by simp
  ultimately show ?thesis
    unfolding place_garment_def Let_def p by simp
qed

text \<open>
  C1.  The claim is that every call returns a frame.  At the pose of the specification's
  own example, on a 640 x 480 frame with the placeholder T-shirt, no guard fires and the
  call returns Python's \<open>None\<close>: the source ends at the comment \<open># Apply\<close>.
\<close>

theorem overlay_tshirt_returns_none:
  "overlay_garment resampled placeholder_overlay camera_frame (Some standing_pose)
     ''tshirt'' ''male'' 150 = Inr None"
  by (simp add: overlay_defs pose_defs)

text \<open>
  C2.  The claim is that the successful path returns the composited copy of the frame.
  With pants on the same pose and frame the garment is resized to 96 x 192 and anchored
  at (110, 288), and the call returns Python's \<open>None\<close> instead of a frame: no pixel is
  ever blended.
\<close>

theorem overlay_pants_returns_none:
  "size_and_anchor resampled (create_placeholder drawn 200 400 ''pants'') standing_pose ''pants''
     = Inr (\<lparr>rows = 192, cols = 96, pixels = 2\<rparr>, (110, 300))
   \<and> placement 480 640 192 96 110 300 = (110, 288, 96, 192)
   \<and> overlay_garment resampled placeholder_overlay camera_frame (Some standing_pose)
       ''pants'' ''female'' 150 = Inr None"
  by (simp add: overlay_defs pose_defs resampled_def)

text \<open>
  C9.  The claim is that a rectangle of width or height zero makes the call return the
  frame.  With both shoulders at x = 100 the width is 0, and \<open>cv2.resize\<close> is called with
  the size (0, 0) before the check on the region is reached: the call raises.
\<close>

theorem overlay_zero_width_raises:
  "upper_size (kp 100 50) (kp 100 60) None None = (0, 0)
   \<and> overlay_garment resampled placeholder_overlay camera_frame (Some side_pose)
       ''tshirt'' ''male'' 150 = Inl Cv2Error"
  by (simp add: overlay_defs side_pose_def kp_def)

subsection \<open>The rectangle of pants\<close>

lemma floor_times_ratio:
  "0 < q \<Longrightarrow> \<lfloor>real_of_int n * (real_of_int p / real_of_int q)\<rfloor> = (n * p) div q"
proof -
  have "real_of_int n * (real_of_int p / real_of_int q) = real_of_int (n * p) / real_of_int q"
    by simp
  then show ?thesis
    by (simp only: floor_divide_of_int_eq)
qed

lemma py_int_scaled:
  assumes "0 \<le> n"
  shows "py_int (of_int n * 1.2) = (6 * n) div 5"
    and "py_int (of_int n / 2 * 1.0) = n div 2"
    and "py_int (of_int n * 2.1 / 2) = (21 * n) div 20"
proof -
  have a: "real_of_int n * 1.2 = real_of_int n * (real_of_int 6 / real_of_int 5)"
    and b: "real_of_int n / 2 * 1.0 = real_of_int n * (real_of_int 1 / real_of_int 2)"
    and c: "real_of_int n * 2.1 / 2 = real_of_int n * (real_of_int 21 / real_of_int 20)"
    by simp_all
  have nn: "0 \<le> real_of_int n" using assms by simp
  show "py_int (of_int n * 1.2) = (6 * n) div 5"
    unfolding py_int_def a using nn floor_times_ratio [of 5 n 6] by (simp add: mult.commute)
  show "py_int (of_int n / 2 * 1.0) = n div 2"
    unfolding py_int_def b using nn floor_times_ratio [of 2 n 1] by simp
  show "py_int (of_int n * 2.1 / 2) = (21 * n) div 20"
    unfolding py_int_def c using nn floor_times_ratio [of 20 n 21] by (simp add: mult.commute)
qed

lemma py_int_knees:
  assumes "0 \<le> p" and "0 \<le> q"
  shows "py_int ((real_of_int p * 2.1 + real_of_int q * 2.1) / 2) = (21 * (p + q)) div 20"
proof -
  have eq: "(real_of_int p * 2.1 + real_of_int q * 2.1) / 2 = real_of_int (p + q) * 2.1 / 2"
    by (simp add: algebra_simps)
  show ?thesis
    unfolding eq using assms by (intro py_int_scaled) simp
qed

text \<open>
  C7, as the code has it.  For pants with both hips, the width is 1.2 times the
  horizontal distance of the hips cut to a whole number of pixels (so at most one pixel
  below 1.2 times that distance); the height is, with both ankles, the mean of the two
  vertical hip-to-ankle distances cut to a whole number; else with both knees, the mean
  of the two vertical hip-to-knee distances times 2.1, cut to a whole number; else
  exactly twice the width; the anchor is (least hip x, least hip y).
\<close>

theorem pants_rectangle:
  "fst (pants_size lh rh lk rk la ra) = (6 * \<bar>x rh - x lh\<bar>) div 5
   \<and> real_of_int (fst (pants_size lh rh lk rk la ra)) \<le> 1.2 * real_of_int \<bar>x rh - x lh\<bar>
   \<and> 1.2 * real_of_int \<bar>x rh - x lh\<bar> < real_of_int (fst (pants_size lh rh lk rk la ra)) + 1
   \<and> (\<forall>a b. la = Some a \<and> ra = Some b \<longrightarrow>
        snd (pants_size lh rh lk rk la ra) = (\<bar>y a - y lh\<bar> + \<bar>y b - y rh\<bar>) div 2)
   \<and> (\<forall>a b. (la = None \<or> ra = None) \<and> lk = Some a \<and> rk = Some b \<longrightarrow>
        snd (pants_size lh rh lk rk la ra) = (21 * (\<bar>y a - y lh\<bar> + \<bar>y b - y rh\<bar>)) div 20)
   \<and> ((la = None \<or> ra = None) \<and> (lk = None \<or> rk = None) \<longrightarrow>
        snd (pants_size lh rh lk rk la ra) = 2 * fst (pants_size lh rh lk rk la ra))
   \<and> pants_pos lh rh = (min (x lh) (x rh), min (y lh) (y rh))"
proof -
  have w: "fst (pants_size lh rh lk rk la ra) = (6 * \<bar>x rh - x lh\<bar>) div 5"
    unfolding pants_size_def Let_def fst_conv by (rule py_int_scaled) simp
  have lo: "real_of_int ((6 * \<bar>x rh - x lh\<bar>) div 5) \<le> 1.2 * real_of_int \<bar>x rh - x lh\<bar>"
    and hi: "1.2 * real_of_int \<bar>x rh - x lh\<bar> < real_of_int ((6 * \<bar>x rh - x lh\<bar>) div 5) + 1"
    by linarith+
  have ankles: "snd (pants_size lh rh lk rk (Some a) (Some b))
      = (\<bar>y a - y lh\<bar> + \<bar>y b - y rh\<bar>) div 2" for a b
    using py_int_scaled(2) [of "\<bar>y a - y lh\<bar> + \<bar>y b - y rh\<bar>"]
    by (simp add: pants_size_def Let_def)
  have knees: "snd (pants_size lh rh (Some a) (Some b) la ra)
      = (21 * (\<bar>y a - y lh\<bar> + \<bar>y b - y rh\<bar>)) div 20" if "la = None \<or> ra = None" for a b
    using that py_int_knees [of "\<bar>y a - y lh\<bar>" "\<bar>y b - y rh\<bar>"]
    by (auto simp add: pants_size_def Let_def split: option.splits)
  have neither: "snd (pants_size lh rh lk rk la ra) = 2 * fst (pants_size lh rh lk rk la ra)"
    if "la = None \<or> ra = None" and "lk = None \<or> rk = None"
    using that by (auto simp add: pants_size_def Let_def split: option.splits)
  have pos: "pants_pos lh rh = (min (x lh) (x rh), min (y lh) (y rh))"
    by (simp add: pants_pos_def)
  show ?thesis
    using lo hi ankles knees neither pos unfolding w by auto
qed

theorem pants_rectangle_witness:
  "fst (pants_size (kp 100 300) (kp 181 300) None None None None) = 97
   \<and> snd (pants_size (kp 100 300) (kp 181 300) None None None None) = 194
   \<and> snd (pants_size (kp 100 300) (kp 181 300) None None
            (Some (kp 100 451)) (Some (kp 181 450))) = 150
   \<and> snd (pants_size (kp 100 300) (kp 181 300) (Some (kp 100 371)) (Some (kp 181 370))
            None (Some (kp 181 450))) = 148
   \<and> pants_pos (kp 100 300) (kp 181 300) = (100, 300)"
  using pants_rectangle [of "kp 100 300" "kp 181 300" None None None None]
    pants_rectangle [of "kp 100 300" "kp 181 300" None None
      "Some (kp 100 451)" "Some (kp 181 450)"]
    pants_rectangle [of "kp 100 300" "kp 181 300" "Some (kp 100 371)" "Some (kp 181 370)"
      None "Some (kp 181 450)"]
  by (simp add: kp_def)

text \<open>
  C7, as the claim states it, fails.  With the hips at (100, 300) and (180, 360), 100
  pixels apart, the width is 96 pixels (1.2 times the 80 pixels between them
  horizontally) and not 120.  With the hips at (100, 300) and (181, 300), 81 pixels apart
  on a horizontal line, the width is 97 pixels and not 1.2 x 81 = 97.2.
\<close>

theorem pants_width_counterexample:
  "distance (kp 100 300) (kp 180 360) = 100
   \<and> fst (pants_size (kp 100 300) (kp 180 360) None None None None) = 96
   \<and> real_of_int (fst (pants_size (kp 100 300) (kp 180 360) None None None None))
       \<noteq> 1.2 * distance (kp 100 300) (kp 180 360)
   \<and> distance (kp 100 300) (kp 181 300) = 81
   \<and> fst (pants_size (kp 100 300) (kp 181 300) None None None None) = 97
   \<and> real_of_int (fst (pants_size (kp 100 300) (kp 181 300) None None None None))
       \<noteq> 1.2 * distance (kp 100 300) (kp 181 300)"
  by (simp add: pants_size_def py_int_def distance_def kp_def)

subsection \<open>The anchor in the frame\<close>

text \<open>
  C8, as the code has it.  On each axis, a rectangle that fits the frame is anchored
  within [0, frameDim - rectDim] and is composited whole; a rectangle larger than the
  frame is anchored at 0 and cropped to the frame, and then the region is empty only if
  the frame is.
\<close>

theorem placement_clamps_or_crops:
  assumes "placement h w garment_rows garment_cols pos_x0 pos_y0 =
             (pos_x, pos_y, roi_width, roi_height)"
  shows "(garment_cols \<le> w \<longrightarrow>
            0 \<le> pos_x \<and> pos_x \<le> w - garment_cols \<and> roi_width = garment_cols)
       \<and> (garment_rows \<le> h \<longrightarrow>
            0 \<le> pos_y \<and> pos_y \<le> h - garment_rows \<and> roi_height = garment_rows)
       \<and> (w < garment_cols \<longrightarrow> pos_x = 0 \<and> roi_width = w)
       \<and> (h < garment_rows \<longrightarrow> pos_y = 0 \<and> roi_height = h)"
proof -
  note f = placement_fields [OF assms]
  show ?thesis
    using clamp_fits [OF f(1) f(3)] clamp_fits [OF f(2) f(4)]
      clamp_crops [OF f(1) f(3)] clamp_crops [OF f(2) f(4)]
    by blast
qed

theorem placement_clamps_or_crops_witness:
  "placement 480 640 275 150 600 25 = (490, 25, 150, 275)
   \<and> (150 :: int) \<le> 640 \<and> (275 :: int) \<le> 480
   \<and> placement 480 640 1350 900 0 (- 85) = (0, 0, 640, 480)
   \<and> (640 :: int) < 900 \<and> (480 :: int) < 1350"
proof -
  have a: "placement 480 640 275 150 600 25 = (490, 25, 150, 275)"
    and b: "placement 480 640 1350 900 0 (- 85) = (0, 0, 640, 480)"
    by (simp_all add: placement_def)
  from placement_clamps_or_crops [OF a] placement_clamps_or_crops [OF b] a b
  show ?thesis by simp
qed

text \<open>
  C8, as the claim states it, fails: with the shoulders at x = 0 and x = 600 the T-shirt
  is resized to 900 x 1350, larger than the 640 x 480 frame on both axes; the region is
  the whole frame, not an empty one, and the call does not return the frame.
\<close>

theorem oversized_rectangle_counterexample:
  "upper_size (kp 0 50) (kp 600 50) None None = (900, 1350)
   \<and> upper_pos (kp 0 50) (kp 600 50) 1350 = (0, - 85)
   \<and> placement 480 640 1350 900 0 (- 85) = (0, 0, 640, 480)
   \<and> overlay_garment resampled placeholder_overlay camera_frame (Some wide_pose)
       ''tshirt'' ''male'' 150 \<noteq> Inr (Some camera_frame)"
  by (simp add: overlay_defs wide_pose_def kp_def)

end
